theory Spec2Isabelle
  imports Complex_Main "HOL-Library.AList"
begin

section \<open>Values of the program\<close>

text \<open>
  The plugin handles three kinds of dynamically typed data: the JSON documents decoded
  from the remote API's replies and from the schedule file, Python floats (timestamps and
  random draws) and strings. A decoded JSON document is a value of type \<open>json\<close>; a
  Python \<open>dict\<close> is the association list of its items in insertion order (the keys of a
  decoded object are distinct; lookup takes the first item of a key). Python floats are
  modelled as real numbers: rounding, infinities and NaN are not modelled.
\<close>

datatype json =
  JNull
  | JBool bool
  | JNum real
  | JStr string
  | JArr "json list"
  | JObj "(string \<times> json) list"

text \<open>The exceptions that the modelled code can raise; \<open>ExternalError\<close> stands for an
  exception raised inside a collaborator of the host framework.\<close>

datatype exn =
  AttributeError
  | TypeError
  | IndexError
  | ValueError
  | ZeroDivisionError
  | ExternalError

text \<open>Python truth value of a decoded JSON value (\<open>if x\<close>, \<open>x or y\<close>).\<close>

fun truthy :: "json \<Rightarrow> bool" where
  "truthy JNull = False"
| "truthy (JBool b) = b"
| "truthy (JNum r) = (r \<noteq> 0)"
| "truthy (JStr s) = (s \<noteq> [])"
| "truthy (JArr xs) = (xs \<noteq> [])"
| "truthy (JObj kvs) = (kvs \<noteq> [])"

text \<open>\<open>a or b\<close>: the first operand when it is true, the second otherwise.\<close>

definition py_or :: "json \<Rightarrow> json \<Rightarrow> json" where
  "py_or a b = (if truthy a then a else b)"

text \<open>\<open>obj.get(key, default)\<close>: only a \<open>dict\<close> has the method; on any other decoded
  value the attribute lookup raises \<open>AttributeError\<close>.\<close>

fun dict_get :: "json \<Rightarrow> string \<Rightarrow> json \<Rightarrow> exn + json" where
  "dict_get (JObj kvs) k d = Inr (case map_of kvs k of None \<Rightarrow> d | Some v \<Rightarrow> v)"
| "dict_get _ k d = Inl AttributeError"

section \<open>NapcatAPI\<close>

text \<open>
  A request is the URL (server address, port and path) and the JSON payload that
  \<open>_make_request\<close> posts. What \<open>urlopen\<close>, \<open>read\<close> and \<open>json.loads\<close> do with it is
  the remote side's: an \<open>http_outcome\<close> is either one of the exceptions caught by
  \<open>_make_request\<close> (in the order of its \<open>except\<close> clauses) or the decoded body.
\<close>

datatype endpoint = Group_poke | Set_group_card | Get_group_member_info

record http_request =
  address :: string
  port :: int
  path :: endpoint
  payload :: json

datatype http_outcome =
  HTTPError int
  | URLError string
  | JSONDecodeError
  | OtherException
  | Response json

text \<open>The second component of a returned pair \<open>(success, result)\<close>: a diagnostic
  message (one constructor for each message the code formats) or decoded data.\<close>

datatype diagnostic =
  HTTP_error_message int
  | Network_error_message string
  | JSON_parse_error_message
  | Request_error_message
  | Set_card_failed_message json
  | Member_info_empty_message

datatype payload_or_message = Message diagnostic | Data json

type_synonym api_result = "bool \<times> payload_or_message"

text \<open>\<open>NapcatAPI._make_request\<close>: posts the request (recorded in the log of requests
  sent, the only effect on the remote side that the model observes) and classifies the
  outcome.\<close>

definition make_request ::
  "http_request \<Rightarrow> http_outcome \<Rightarrow> http_request list \<Rightarrow> api_result \<times> http_request list" where
  "make_request req outcome sent =
     ((case outcome of
         Response result \<Rightarrow> (True, Data result)
       | HTTPError code \<Rightarrow> (False, Message (HTTP_error_message code))
       | URLError reason \<Rightarrow> (False, Message (Network_error_message reason))
       | JSONDecodeError \<Rightarrow> (False, Message JSON_parse_error_message)
       | OtherException \<Rightarrow> (False, Message Request_error_message)),
      sent @ [req])"

definition poke_request :: "string \<Rightarrow> int \<Rightarrow> string \<Rightarrow> string \<Rightarrow> http_request" where
  "poke_request addr prt group_id user_id =
     \<lparr>address = addr, port = prt, path = Group_poke,
      payload = JObj [(''group_id'', JStr group_id), (''user_id'', JStr user_id)]\<rparr>"

definition card_request :: "string \<Rightarrow> int \<Rightarrow> string \<Rightarrow> string \<Rightarrow> json \<Rightarrow> http_request" where
  "card_request addr prt group_id user_id card' =
     \<lparr>address = addr, port = prt, path = Set_group_card,
      payload = JObj [(''group_id'', JStr group_id), (''user_id'', JStr user_id),
                      (''card'', card')]\<rparr>"

definition member_info_request :: "string \<Rightarrow> int \<Rightarrow> string \<Rightarrow> string \<Rightarrow> http_request" where
  "member_info_request addr prt group_id user_id =
     \<lparr>address = addr, port = prt, path = Get_group_member_info,
      payload = JObj [(''group_id'', JStr group_id), (''user_id'', JStr user_id),
                      (''no_cache'', JBool True)]\<rparr>"

text \<open>\<open>NapcatAPI.group_poke\<close>: both branches hand the pair of \<open>_make_request\<close> on.\<close>

definition group_poke ::
  "string \<Rightarrow> int \<Rightarrow> string \<Rightarrow> string \<Rightarrow> http_outcome \<Rightarrow> http_request list
     \<Rightarrow> (exn + api_result) \<times> http_request list" where
  "group_poke addr prt group_id user_id outcome sent =
     (case make_request (poke_request addr prt group_id user_id) outcome sent of
        ((success, result), sent') \<Rightarrow>
          if \<not> success then (Inr (False, result), sent')
          else (Inr (True, result), sent'))"

text \<open>\<open>NapcatAPI.set_group_card\<close>: reads \<open>data\<close> (unused), then tests \<open>status\<close>.\<close>

definition set_group_card ::
  "string \<Rightarrow> int \<Rightarrow> string \<Rightarrow> string \<Rightarrow> json \<Rightarrow> http_outcome \<Rightarrow> http_request list
     \<Rightarrow> (exn + api_result) \<times> http_request list" where
  "set_group_card addr prt group_id user_id card' outcome sent =
     (case make_request (card_request addr prt group_id user_id card') outcome sent of
        ((success, result), sent') \<Rightarrow>
          if \<not> success then (Inr (False, result), sent')
          else (case result of
                  Message m \<Rightarrow> (Inl AttributeError, sent')
                | Data body \<Rightarrow>
                    (case dict_get body ''data'' JNull of
                       Inl e \<Rightarrow> (Inl e, sent')
                     | Inr data \<Rightarrow>
                         (case dict_get body ''status'' JNull of
                            Inl e \<Rightarrow> (Inl e, sent')
                          | Inr status \<Rightarrow>
                              if status \<noteq> JStr ''ok'' then
                                (case dict_get body ''message'' (JStr ''unknown error'') of
                                   Inl e \<Rightarrow> (Inl e, sent')
                                 | Inr msg \<Rightarrow>
                                     (Inr (False, Message (Set_card_failed_message msg)), sent'))
                              else (Inr (True, Data body), sent')))))"

text \<open>\<open>NapcatAPI.get_group_member_info\<close>: fails when \<open>data\<close> is absent or null, and
  returns the data itself otherwise.\<close>

definition get_group_member_info ::
  "string \<Rightarrow> int \<Rightarrow> string \<Rightarrow> string \<Rightarrow> http_outcome \<Rightarrow> http_request list
     \<Rightarrow> (exn + api_result) \<times> http_request list" where
  "get_group_member_info addr prt group_id user_id outcome sent =
     (case make_request (member_info_request addr prt group_id user_id) outcome sent of
        ((success, result), sent') \<Rightarrow>
          if \<not> success then (Inr (False, result), sent')
          else (case result of
                  Message m \<Rightarrow> (Inl AttributeError, sent')
                | Data body \<Rightarrow>
                    (case dict_get body ''data'' JNull of
                       Inl e \<Rightarrow> (Inl e, sent')
                     | Inr data \<Rightarrow>
                         if data = JNull then
                           (Inr (False, Message Member_info_empty_message), sent')
                         else (Inr (True, Data data), sent'))))"

section \<open>The execution cycle\<close>

text \<open>
  The plugin's own configuration (the values that \<open>self.config.get(...).get(...)\<close>
  yields), the bot identity of the host's global configuration, and a message of the
  host's message store, of which the code reads \<open>user_info.user_id\<close> only.
\<close>

record config =
  napcat_address :: string
  napcat_port :: int
  min_interval :: int
  max_interval :: int
  lambda_param :: real

record bot_identity =
  bot_qq :: string
  bot_nickname :: string
  bot_alias_names :: "string list"

record user_info =
  user_id :: string

record message =
  user_info :: "user_info option"

text \<open>
  What the surroundings do during one call of \<open>_execute_duoshe\<close>. Every call site of a
  collaborator, of the random generator and of the remote API runs at most once in a
  cycle, so the surroundings of a cycle are the value each site receives if it is
  reached: whether \<open>chat_api.get_stream_by_group_id\<close> raises, the result of the message
  query, the value of \<open>random.random()\<close> inside \<open>random.expovariate\<close>, the raw draws
  behind the two \<open>random.choice\<close> calls, and the outcome of each of the five requests.
  The argument \<open>chat_id\<close> only names the chat whose messages are queried, so it is part
  of the surroundings too.
\<close>

record cycle_env =
  stream_lookup :: "exn option"
  message_query :: "exn + message list"
  random_unit :: real
  fallback_draw :: nat
  card_draw :: nat
  poke_outcome :: http_outcome
  target_info_outcome :: http_outcome
  bot_info_outcome :: http_outcome
  own_card_outcome :: http_outcome
  target_card_outcome :: http_outcome

subsection \<open>Step 1: ranking the active users\<close>

text \<open>\<open>user_message_count[user_id] += 1\<close> on a \<open>defaultdict(int)\<close>: a new key goes
  to the end, an old one keeps its place.\<close>

definition increment :: "(string \<times> nat) list \<Rightarrow> string \<Rightarrow> (string \<times> nat) list" where
  "increment counts u =
     AList.update u ((case map_of counts u of None \<Rightarrow> 0 | Some c \<Rightarrow> c) + 1) counts"

fun count_messages :: "message list \<Rightarrow> (string \<times> nat) list \<Rightarrow> (string \<times> nat) list" where
  "count_messages [] counts = counts"
| "count_messages (msg # msgs) counts =
     (case user_info msg of
        None \<Rightarrow> count_messages msgs counts
      | Some ui \<Rightarrow>
          if user_id ui \<noteq> [] then count_messages msgs (increment counts (user_id ui))
          else count_messages msgs counts)"

text \<open>\<open>sorted(items, key=count, reverse=True)\<close> is stable: items of equal count keep
  their order, which is what the stable \<open>sort_key\<close> does on the negated count.\<close>

definition sorted_users :: "(string \<times> nat) list \<Rightarrow> (string \<times> nat) list" where
  "sorted_users items = sort_key (\<lambda>x. - int (snd x)) items"

definition active_users_of :: "exn + message list \<Rightarrow> string list" where
  "active_users_of query =
     (case query of
        Inl e \<Rightarrow> []
      | Inr messages \<Rightarrow> map fst (sorted_users (count_messages messages [])))"

subsection \<open>Step 2: selecting the target\<close>

text \<open>\<open>random.expovariate(lambd)\<close> is \<open>-log(1.0 - random()) / lambd\<close>.\<close>

definition expovariate :: "real \<Rightarrow> real \<Rightarrow> exn + real" where
  "expovariate lambd u =
     (if 1 - u \<le> 0 then Inl ValueError
      else if lambd = 0 then Inl ZeroDivisionError
      else Inr (- ln (1 - u) / lambd))"

text \<open>\<open>int(x)\<close> truncates towards zero.\<close>

definition py_int :: "real \<Rightarrow> int" where
  "py_int x = (if 0 \<le> x then \<lfloor>x\<rfloor> else \<lceil>x\<rceil>)"

text \<open>\<open>xs[i]\<close>: a negative index counts from the end; out of range raises.\<close>

definition list_index :: "'a list \<Rightarrow> int \<Rightarrow> exn + 'a" where
  "list_index xs i =
     (if 0 \<le> i then (if i < int (length xs) then Inr (xs ! nat i) else Inl IndexError)
      else if - int (length xs) \<le> i then Inr (xs ! nat (int (length xs) + i))
      else Inl IndexError)"

text \<open>\<open>random.choice(seq)\<close> is \<open>seq[randbelow(len(seq))]\<close> and raises on an empty
  sequence. The generator's draw is any natural number, reduced below the length: every
  position of the sequence can result, and nothing else.\<close>

definition choice :: "'a list \<Rightarrow> nat \<Rightarrow> exn + 'a" where
  "choice xs draw = (if xs = [] then Inl IndexError else Inr (xs ! (draw mod length xs)))"

definition select_target :: "real \<Rightarrow> cycle_env \<Rightarrow> string list \<Rightarrow> exn + string" where
  "select_target lambd env active_users =
     (if length active_users = 1 then list_index active_users 0
      else
        (case (case expovariate lambd (random_unit env) of
                 Inl e \<Rightarrow> Inl e
               | Inr random_value \<Rightarrow>
                   (let index = py_int (random_value * real (length active_users));
                        index = min index (int (length active_users) - 1)
                    in list_index active_users index)) of
           Inl e \<Rightarrow> choice active_users (fallback_draw env)
         | Inr target_user_id \<Rightarrow> Inr target_user_id))"

subsection \<open>Steps 3 to 6: the remote actions\<close>

text \<open>\<open>info.get("card", "") or info.get("nickname", "")\<close> on what
  \<open>get_group_member_info\<close> returned.\<close>

definition info_get :: "payload_or_message \<Rightarrow> string \<Rightarrow> json \<Rightarrow> exn + json" where
  "info_get info k d = (case info of Message m \<Rightarrow> Inl AttributeError | Data j \<Rightarrow> dict_get j k d)"

definition card_or_nickname :: "payload_or_message \<Rightarrow> exn + json" where
  "card_or_nickname info =
     (case info_get info ''card'' (JStr []) of
        Inl e \<Rightarrow> Inl e
      | Inr c \<Rightarrow> if truthy c then Inr c else info_get info ''nickname'' (JStr []))"

text \<open>The candidate cards of Step 6: the nickname, the aliases, the current card.\<close>

definition candidate_cards :: "string \<Rightarrow> string list \<Rightarrow> json \<Rightarrow> json list" where
  "candidate_cards nickname aliases bot_card =
     (if nickname \<noteq> [] then [JStr nickname] else [])
     @ (if aliases \<noteq> [] then map JStr aliases else [])
     @ (if truthy bot_card then [bot_card] else [])"

text \<open>The body of the \<open>try\<close> of \<open>_execute_duoshe\<close>: \<open>Inr ()\<close> when it runs to a
  \<open>return\<close> or to its end, \<open>Inl e\<close> when \<open>e\<close> escapes to the \<open>except\<close> clause. Log
  lines are left out.\<close>

definition execute_duoshe_try ::
  "config \<Rightarrow> bot_identity \<Rightarrow> cycle_env \<Rightarrow> string \<Rightarrow> http_request list
     \<Rightarrow> (exn + unit) \<times> http_request list" where
  "execute_duoshe_try cfg ident env group_id sent =
     (let active_users = active_users_of (message_query env) in
      if active_users = [] then (Inr (), sent)
      else
        (case select_target (lambda_param cfg) env active_users of
           Inl e \<Rightarrow> (Inl e, sent)
         | Inr target_user_id \<Rightarrow>
             if target_user_id = [] then (Inr (), sent)
             else
               (case group_poke (napcat_address cfg) (napcat_port cfg) group_id target_user_id
                       (poke_outcome env) sent of
                  (Inl e, sent1) \<Rightarrow> (Inl e, sent1)
                | (Inr poked, sent1) \<Rightarrow>
               (case get_group_member_info (napcat_address cfg) (napcat_port cfg) group_id
                       target_user_id (target_info_outcome env) sent1 of
                  (Inl e, sent2) \<Rightarrow> (Inl e, sent2)
                | (Inr (success, target_info), sent2) \<Rightarrow>
               if \<not> success then (Inr (), sent2)
               else
               (case card_or_nickname target_info of
                  Inl e \<Rightarrow> (Inl e, sent2)
                | Inr target_card \<Rightarrow>
               (case get_group_member_info (napcat_address cfg) (napcat_port cfg) group_id
                       (bot_qq ident) (bot_info_outcome env) sent2 of
                  (Inl e, sent3) \<Rightarrow> (Inl e, sent3)
                | (Inr (success, bot_info), sent3) \<Rightarrow>
               if \<not> success then (Inr (), sent3)
               else
               (case card_or_nickname bot_info of
                  Inl e \<Rightarrow> (Inl e, sent3)
                | Inr bot_card \<Rightarrow>
               (case info_get bot_info ''role'' (JStr ''member'') of
                  Inl e \<Rightarrow> (Inl e, sent3)
                | Inr bot_role \<Rightarrow>
               (case set_group_card (napcat_address cfg) (napcat_port cfg) group_id
                       (bot_qq ident) target_card (own_card_outcome env) sent3 of
                  (Inl e, sent4) \<Rightarrow> (Inl e, sent4)
                | (Inr own_set, sent4) \<Rightarrow>
               if bot_role = JStr ''admin'' \<or> bot_role = JStr ''owner'' then
                 (let candidates =
                        candidate_cards (bot_nickname ident) (bot_alias_names ident) bot_card
                  in if candidates \<noteq> [] then
                       (case choice candidates (card_draw env) of
                          Inl e \<Rightarrow> (Inl e, sent4)
                        | Inr new_card \<Rightarrow>
                            (case set_group_card (napcat_address cfg) (napcat_port cfg)
                                    group_id target_user_id new_card
                                    (target_card_outcome env) sent4 of
                               (Inl e, sent5) \<Rightarrow> (Inl e, sent5)
                             | (Inr target_set, sent5) \<Rightarrow> (Inr (), sent5)))
                     else (Inr (), sent4))
               else (Inr (), sent4))))))))))"

text \<open>\<open>_execute_duoshe\<close>: the stream lookup stands before the \<open>try\<close>, so its exception
  leaves the function; whatever the body raises is caught and logged. The result is the
  exception that leaves the function, if any, and the requests sent.\<close>

definition execute_duoshe ::
  "config \<Rightarrow> bot_identity \<Rightarrow> cycle_env \<Rightarrow> string \<Rightarrow> http_request list
     \<Rightarrow> exn option \<times> http_request list" where
  "execute_duoshe cfg ident env group_id sent =
     (case stream_lookup env of
        Some e \<Rightarrow> (Some e, sent)
      | None \<Rightarrow>
          (case execute_duoshe_try cfg ident env group_id sent of
             (outcome, sent') \<Rightarrow> (None, sent')))"

section \<open>The schedule store and the scheduling loop\<close>

text \<open>
  The schedule file is absent, unreadable (opening or decoding it raises), or holds a
  JSON document. The text codec is the standard library's: \<open>json.dump\<close> and
  \<open>json.load\<close> are taken to write and read back the same document, so the file is
  modelled by the document it holds. A write succeeds, fails before the file is touched,
  or fails after the file was truncated.
\<close>

datatype schedule_file = Missing | Unreadable | Document json

datatype write_outcome = Written | Open_failed | Write_interrupted

text \<open>\<open>_load_schedule\<close>: an absent file and a failing read both give \<open>{}\<close>; what
  \<open>json.load\<close> returns is handed on unchecked.\<close>

definition load_schedule :: "schedule_file \<Rightarrow> json" where
  "load_schedule f =
     (case f of
        Missing \<Rightarrow> JObj []
      | Document d \<Rightarrow> d
      | Unreadable \<Rightarrow> JObj [])"

text \<open>\<open>_save_schedule\<close>: overwrites the whole file; a failure is logged only.\<close>

definition save_schedule :: "write_outcome \<Rightarrow> json \<Rightarrow> schedule_file \<Rightarrow> schedule_file" where
  "save_schedule outcome schedule_data f =
     (case outcome of
        Written \<Rightarrow> Document schedule_data
      | Open_failed \<Rightarrow> f
      | Write_interrupted \<Rightarrow> Unreadable)"

text \<open>A schedule mapping \<open>Dict[str, float]\<close> as the document it is saved as.\<close>

definition schedule_dict :: "(string \<times> real) list \<Rightarrow> json" where
  "schedule_dict items = JObj (map (\<lambda>(group_id, next_run). (group_id, JNum next_run)) items)"

text \<open>\<open>obj[key] = value\<close> on a decoded value: a \<open>dict\<close> keeps the place of an old
  key and appends a new one; any other decoded value raises on a string key.\<close>

fun dict_set :: "json \<Rightarrow> string \<Rightarrow> json \<Rightarrow> exn + json" where
  "dict_set (JObj kvs) k v = Inr (JObj (AList.update k v kvs))"
| "dict_set _ k v = Inl TypeError"

text \<open>\<open>current_time >= next_run\<close> where \<open>next_run\<close> was read from the document: a
  number compares (a \<open>bool\<close> is the number 0 or 1), anything else raises.\<close>

fun float_ge :: "real \<Rightarrow> json \<Rightarrow> exn + bool" where
  "float_ge t (JNum r) = Inr (t \<ge> r)"
| "float_ge t (JBool b) = Inr (t \<ge> (if b then 1 else 0))"
| "float_ge t _ = Inl TypeError"

text \<open>\<open>random.uniform(a, b)\<close> is \<open>a + (b - a) * random()\<close>.\<close>

definition uniform :: "real \<Rightarrow> real \<Rightarrow> real \<Rightarrow> real" where
  "uniform a b u = a + (b - a) * u"

text \<open>
  One pass of the \<open>while True\<close> loop of \<open>_schedule_task\<close>. Its surroundings: the
  clock reading, the surroundings of the cycle, the value of \<open>random.random()\<close> inside
  \<open>random.uniform\<close>, the outcome of the write, and whether the task is cancelled
  while it sleeps. The state is the schedule file and the requests sent so far. A pass
  ends in the 60 second sleep (\<open>Not_due\<close>, \<open>Rescheduled\<close>) or, when an exception
  reaches the \<open>except\<close> clause of the loop, in the 300 second sleep (\<open>Backoff\<close>).
  \<open>_execute_duoshe\<close> never suspends, so nothing runs between the load and the save of
  a pass. Log lines are left out.
\<close>

record tick =
  now :: real
  cycle :: cycle_env
  uniform_unit :: real
  write_result :: write_outcome
  cancelled :: bool

record world =
  store :: schedule_file
  requests :: "http_request list"

datatype pass_result = Not_due | Rescheduled real | Backoff exn

definition schedule_pass ::
  "config \<Rightarrow> bot_identity \<Rightarrow> string \<Rightarrow> tick \<Rightarrow> world \<Rightarrow> pass_result \<times> world" where
  "schedule_pass cfg ident group_id tk w =
     (let schedule_data = load_schedule (store w);
          current_time = now tk
      in case dict_get schedule_data group_id (JNum current_time) of
           Inl e \<Rightarrow> (Backoff e, w)
         | Inr next_run \<Rightarrow>
             (case float_ge current_time next_run of
                Inl e \<Rightarrow> (Backoff e, w)
              | Inr due \<Rightarrow>
                  if due then
                    (case execute_duoshe cfg ident (cycle tk) group_id (requests w) of
                       (Some e, sent') \<Rightarrow> (Backoff e, w\<lparr>requests := sent'\<rparr>)
                     | (None, sent') \<Rightarrow>
                         (let min_minutes = real_of_int (min_interval cfg);
                              max_minutes = real_of_int (max_interval cfg);
                              interval_minutes = uniform min_minutes max_minutes (uniform_unit tk);
                              interval = interval_minutes * 60;
                              next_run = current_time + interval
                          in case dict_set schedule_data group_id (JNum next_run) of
                               Inl e \<Rightarrow> (Backoff e, w\<lparr>requests := sent'\<rparr>)
                             | Inr schedule_data' \<Rightarrow>
                                 (Rescheduled next_run,
                                  \<lparr>store = save_schedule (write_result tk) schedule_data' (store w),
                                   requests = sent'\<rparr>)))
                  else (Not_due, w)))"

text \<open>The loop, after the stream lookup at the start of \<open>_schedule_task\<close>, observed
  over the passes it makes: it ends when the task is cancelled during the sleep that
  follows a pass.\<close>

fun schedule_task ::
  "config \<Rightarrow> bot_identity \<Rightarrow> string \<Rightarrow> tick list \<Rightarrow> world \<Rightarrow> world" where
  "schedule_task cfg ident group_id [] w = w"
| "schedule_task cfg ident group_id (tk # tks) w =
     (case schedule_pass cfg ident group_id tk w of
        (r, w') \<Rightarrow> if cancelled tk then w' else schedule_task cfg ident group_id tks w')"

section \<open>Observations and examples used in the statements\<close>

text \<open>What each operation returns for an outcome of its request. The returned value
  depends on the outcome only (lemmas \<open>group_poke_eq\<close>, \<open>get_group_member_info_eq\<close>
  and \<open>set_group_card_eq\<close> below), so it is read off at fixed arguments.\<close>

definition poke_result :: "http_outcome \<Rightarrow> exn + api_result" where
  "poke_result outcome = fst (group_poke [] 0 [] [] outcome [])"

definition set_card_result :: "http_outcome \<Rightarrow> exn + api_result" where
  "set_card_result outcome = fst (set_group_card [] 0 [] [] JNull outcome [])"

definition member_info_result :: "http_outcome \<Rightarrow> exn + api_result" where
  "member_info_result outcome = fst (get_group_member_info [] 0 [] [] outcome [])"

text \<open>An operation succeeded when it returned \<open>(True, _)\<close>; it returned the failure
  signal when it returned \<open>(False, _)\<close>. An exception is neither.\<close>

definition succeeded :: "exn + api_result \<Rightarrow> bool" where
  "succeeded r = (case r of Inr (success, result) \<Rightarrow> success | Inl e \<Rightarrow> False)"

definition returned_failure :: "exn + api_result \<Rightarrow> bool" where
  "returned_failure r = (case r of Inr (success, result) \<Rightarrow> \<not> success | Inl e \<Rightarrow> False)"

text \<open>The request did not yield a decoded body.\<close>

definition transport_failure :: "http_outcome \<Rightarrow> bool" where
  "transport_failure outcome = (case outcome of Response body \<Rightarrow> False | _ \<Rightarrow> True)"

text \<open>A decoded body that carries a status other than \<open>"ok"\<close>, or whose \<open>data\<close> is null
  or absent.\<close>

definition status_not_ok :: "json \<Rightarrow> bool" where
  "status_not_ok body =
     (case body of JObj kvs \<Rightarrow> map_of kvs ''status'' \<noteq> Some (JStr ''ok'') | _ \<Rightarrow> False)"

definition data_empty :: "json \<Rightarrow> bool" where
  "data_empty body =
     (case body of
        JObj kvs \<Rightarrow> map_of kvs ''data'' = None \<or> map_of kvs ''data'' = Some JNull
      | _ \<Rightarrow> False)"

text \<open>The display name and the role that a cycle reads from the reply to a member-info
  request, when the fetch succeeds and the reads do not raise.\<close>

definition fetched_card :: "http_outcome \<Rightarrow> json option" where
  "fetched_card outcome =
     (case member_info_result outcome of
        Inr (True, info) \<Rightarrow>
          (case card_or_nickname info of Inr c \<Rightarrow> Some c | Inl e \<Rightarrow> None)
      | _ \<Rightarrow> None)"

definition fetched_role :: "http_outcome \<Rightarrow> json option" where
  "fetched_role outcome =
     (case member_info_result outcome of
        Inr (True, bot_info) \<Rightarrow>
          (case info_get bot_info ''role'' (JStr ''member'') of
             Inr bot_role \<Rightarrow> Some bot_role
           | Inl e \<Rightarrow> None)
      | _ \<Rightarrow> None)"

definition is_card_request :: "http_request \<Rightarrow> bool" where
  "is_card_request r = (path r = Set_group_card)"

text \<open>The candidate pool as the specification words it: the non-empty entries among a
  nickname, a list of alias names and a card.\<close>

definition claimed_pool :: "string \<Rightarrow> string list \<Rightarrow> json \<Rightarrow> json list" where
  "claimed_pool nickname aliases own_card =
     filter truthy (JStr nickname # map JStr aliases @ [own_card])"

text \<open>Concrete surroundings: the default configuration of \<open>config_schema\<close>, a bot with
  one alias, one message of user 42 in the window, and a remote side that accepts every
  request and reports the bot as administrator.\<close>

definition example_config :: config where
  "example_config =
     \<lparr>napcat_address = ''napcat'', napcat_port = 3000,
      min_interval = 360, max_interval = 480, lambda_param = 3 / 2\<rparr>"

definition example_bot :: bot_identity where
  "example_bot = \<lparr>bot_qq = ''10000'', bot_nickname = ''Mai'', bot_alias_names = [''Maimai'']\<rparr>"

definition ok_reply :: http_outcome where
  "ok_reply = Response (JObj [(''status'', JStr ''ok''), (''data'', JNull)])"

definition failed_reply :: http_outcome where
  "failed_reply = Response (JObj [(''status'', JStr ''failed''), (''data'', JNull)])"

definition member_reply :: "string \<Rightarrow> string \<Rightarrow> string \<Rightarrow> http_outcome" where
  "member_reply member_card nickname role =
     Response (JObj [(''status'', JStr ''ok''),
                     (''data'', JObj [(''card'', JStr member_card),
                                      (''nickname'', JStr nickname),
                                      (''role'', JStr role)])])"

definition example_env :: cycle_env where
  "example_env =
     \<lparr>stream_lookup = None,
      message_query = Inr [\<lparr>user_info = Some \<lparr>user_id = ''42''\<rparr>\<rparr>],
      random_unit = 1 / 10, fallback_draw = 0, card_draw = 1,
      poke_outcome = ok_reply,
      target_info_outcome = member_reply ''Alice'' ''alice'' ''member'',
      bot_info_outcome = member_reply ''Mai'' ''mai'' ''admin'',
      own_card_outcome = ok_reply,
      target_card_outcome = ok_reply\<rparr>"

definition example_tick :: tick where
  "example_tick =
     \<lparr>now = 1700000000, cycle = example_env, uniform_unit = 1 / 2,
      write_result = Written, cancelled = False\<rparr>"

definition example_world :: world where
  "example_world =
     \<lparr>store = Document (schedule_dict [(''1001'', 1699999000), (''2002'', 1700005000)]),
      requests = []\<rparr>"

section \<open>Auxiliary facts\<close>

lemma group_poke_eq:
  "group_poke a p g u outcome s = (poke_result outcome, s @ [poke_request a p g u])"
  by (simp add: poke_result_def group_poke_def make_request_def split: prod.splits)

lemma get_group_member_info_eq:
  "get_group_member_info a p g u outcome s =
     (member_info_result outcome, s @ [member_info_request a p g u])"
  by (simp add: member_info_result_def get_group_member_info_def make_request_def
      split: prod.splits payload_or_message.splits sum.splits http_outcome.splits)

lemma set_group_card_eq:
  "set_group_card a p g u c outcome s =
     (set_card_result outcome, s @ [card_request a p g u c])"
  by (simp add: set_card_result_def set_group_card_def make_request_def
      split: prod.splits payload_or_message.splits sum.splits http_outcome.splits)

lemmas api_eqs = group_poke_eq get_group_member_info_eq set_group_card_eq

lemma path_of_request [simp]:
  "path (poke_request a p g u) = Group_poke"
  "path (member_info_request a p g u) = Get_group_member_info"
  "path (card_request a p g u c) = Set_group_card"
  by (simp_all add: poke_request_def member_info_request_def card_request_def)

lemma card_request_inject [simp]:
  "card_request a p g u c = card_request a' p' g' u' c'
     \<longleftrightarrow> a = a' \<and> p = p' \<and> g = g' \<and> u = u' \<and> c = c'"
  by (auto simp add: card_request_def)

lemma poke_result_returns: "\<exists>r. poke_result outcome = Inr r"
  by (cases outcome) (auto simp add: poke_result_def group_poke_def make_request_def)

lemma poke_result_Response [simp]: "poke_result (Response body) = Inr (True, Data body)"
  by (simp add: poke_result_def group_poke_def make_request_def)

lemma transport_failure_results:
  assumes "transport_failure outcome"
  shows "returned_failure (poke_result outcome)"
    and "returned_failure (set_card_result outcome)"
    and "returned_failure (member_info_result outcome)"
  using assms
  by (cases outcome;
      simp add: transport_failure_def returned_failure_def poke_result_def set_card_result_def
        member_info_result_def group_poke_def set_group_card_def get_group_member_info_def
        make_request_def)+

lemma set_card_result_status:
  "status_not_ok body \<Longrightarrow> returned_failure (set_card_result (Response body))"
  by (cases body)
     (auto simp add: status_not_ok_def returned_failure_def set_card_result_def
        set_group_card_def make_request_def split: option.splits)

lemma member_info_result_empty:
  "data_empty body \<Longrightarrow> returned_failure (member_info_result (Response body))"
  by (cases body)
     (auto simp add: data_empty_def returned_failure_def member_info_result_def
        get_group_member_info_def make_request_def)

lemma member_info_result_member_reply [simp]:
  "member_info_result (member_reply c n r) =
     Inr (True, Data (JObj [(''card'', JStr c), (''nickname'', JStr n), (''role'', JStr r)]))"
  by (simp add: member_info_result_def member_reply_def get_group_member_info_def
      make_request_def)

lemma fetched_role_member_reply [simp]: "fetched_role (member_reply c n r) = Some (JStr r)"
  by (simp add: fetched_role_def info_get_def)

lemma fetched_card_member_reply [simp]:
  "fetched_card (member_reply c n r) = Some (if c \<noteq> [] then JStr c else JStr n)"
  by (simp add: fetched_card_def card_or_nickname_def info_get_def)

lemma set_card_result_replies [simp]:
  "set_card_result ok_reply = Inr (True, Data (JObj [(''status'', JStr ''ok''), (''data'', JNull)]))"
  "set_card_result failed_reply =
     Inr (False, Message (Set_card_failed_message (JStr ''unknown error'')))"
  by (simp_all add: set_card_result_def ok_reply_def failed_reply_def set_group_card_def
      make_request_def)

lemma single_message_ranking [simp]:
  "active_users_of (Inr [\<lparr>user_info = Some \<lparr>user_id = ''42''\<rparr>\<rparr>]) = [''42'']"
  by (simp add: active_users_of_def sorted_users_def increment_def)

subsection \<open>Selection\<close>

lemma list_index_nonneg:
  "0 \<le> i \<Longrightarrow> i < int (length xs) \<Longrightarrow> list_index xs i = Inr (xs ! nat i)"
  by (simp add: list_index_def)

lemma list_index_in_set: "list_index xs i = Inr x \<Longrightarrow> x \<in> set xs"
  by (auto simp add: list_index_def split: if_splits)

lemma choice_in_set: "xs \<noteq> [] \<Longrightarrow> \<exists>x \<in> set xs. choice xs d = Inr x"
  by (simp add: choice_def)

lemma select_singleton: "select_target lambd env [x] = Inr x"
  by (simp add: select_target_def list_index_def)

lemma select_member:
  assumes "ranked \<noteq> []"
  shows "\<exists>t \<in> set ranked. select_target lambd env ranked = Inr t"
proof (cases "length ranked = 1")
  case True
  then obtain x where "ranked = [x]" by (cases ranked) auto
  then show ?thesis by (simp add: select_singleton)
next
  case False
  show ?thesis
  proof (cases "expovariate lambd (random_unit env)")
    case (Inl e)
    then show ?thesis using False assms by (simp add: select_target_def choice_in_set)
  next
    case (Inr sample)
    let ?i = "min (py_int (sample * real (length ranked))) (int (length ranked) - 1)"
    show ?thesis
    proof (cases "list_index ranked ?i")
      case (Inl e)
      then show ?thesis
        using False assms Inr by (simp add: select_target_def choice_in_set Let_def)
    next
      case found: (Inr t)
      then have "t \<in> set ranked" by (rule list_index_in_set)
      then show ?thesis using False Inr found by (simp add: select_target_def Let_def)
    qed
  qed
qed

lemma nat_min_pred:
  "0 \<le> a \<Longrightarrow> 0 < n \<Longrightarrow> nat (min a (int n - 1)) = min (nat a) (n - 1)"
  by arith

lemma select_index:
  assumes "2 \<le> length ranked"
      and "expovariate lambd (random_unit env) = Inr sample"
      and "0 \<le> sample"
  shows "select_target lambd env ranked =
           Inr (ranked ! min (nat \<lfloor>sample * real (length ranked)\<rfloor>) (length ranked - 1))"
proof -
  let ?n = "length ranked"
  let ?x = "sample * real ?n"
  let ?i = "min \<lfloor>?x\<rfloor> (int ?n - 1)"
  have nonempty: "ranked \<noteq> []" using assms(1) by auto
  have x0: "0 \<le> ?x" using assms(3) by simp
  then have f0: "0 \<le> \<lfloor>?x\<rfloor>" by simp
  have i0: "0 \<le> ?i" using f0 nonempty by (simp add: Suc_leI)
  have i1: "?i < int ?n" by simp
  have n: "nat ?i = min (nat \<lfloor>?x\<rfloor>) (?n - 1)"
    using f0 nonempty by (intro nat_min_pred) simp_all
  have "list_index ranked ?i = Inr (ranked ! nat ?i)"
    using i0 i1 by (rule list_index_nonneg)
  then show ?thesis
    using assms(1,2) x0 n by (auto simp add: select_target_def py_int_def Let_def)
qed

lemma expovariate_nonneg:
  assumes "0 < lambd" "0 \<le> u" "u < 1"
  shows "\<exists>sample. expovariate lambd u = Inr sample \<and> 0 \<le> sample"
proof -
  have "ln (1 - u) \<le> 0" using assms by simp
  then have "0 \<le> - ln (1 - u) / lambd" using assms(1) by (simp add: divide_le_0_iff)
  then show ?thesis using assms by (simp add: expovariate_def)
qed

lemma ln_ten_ninths: "8 / 81 \<le> ln (10 / 9 :: real)" "ln (10 / 9 :: real) \<le> 1 / 9"
proof -
  have "(1 / 9 :: real) - (1 / 9)\<^sup>2 \<le> ln (1 + 1 / 9)"
    by (rule ln_one_plus_pos_lower_bound) simp_all
  then show "8 / 81 \<le> ln (10 / 9 :: real)" by (simp add: power2_eq_square)
  have "ln (1 + 1 / 9 :: real) \<le> 1 / 9" by (rule ln_add_one_self_le_self) simp
  then show "ln (10 / 9 :: real) \<le> 1 / 9" by simp
qed

lemma scenario_sample:
  "\<exists>sample. expovariate (3 / 2) (1 / 10) = Inr sample \<and> 0.0658 < sample \<and> sample < 0.0741"
proof -
  have e: "expovariate (3 / 2) (1 / 10) = Inr (- ln (9 / 10) / (3 / 2))"
    by (simp add: expovariate_def)
  have "ln (9 / 10 :: real) = - ln (10 / 9)"
    using ln_inverse[of "10 / 9 :: real"] by simp
  then have s: "- ln (9 / 10 :: real) / (3 / 2) = 2 * ln (10 / 9) / 3" by simp
  have lo: "0.0658 < 2 * ln (10 / 9 :: real) / 3" using ln_ten_ninths(1) by simp
  have hi: "2 * ln (10 / 9 :: real) / 3 < 0.0741" using ln_ten_ninths(2) by simp
  show ?thesis unfolding e s using lo hi by blast
qed

subsection \<open>The requests of a cycle that reaches Step 5\<close>

lemma reaches_step_5:
  assumes "stream_lookup env = None"
      and "active_users_of (message_query env) \<noteq> []"
      and "select_target (lambda_param cfg) env (active_users_of (message_query env)) = Inr t"
      and "t \<noteq> []"
      and "fetched_card (target_info_outcome env) = Some target_card"
      and "fetched_card (bot_info_outcome env) = Some bot_card"
      and "fetched_role (bot_info_outcome env) = Some bot_role"
      and "set_card_result (own_card_outcome env) = Inr own_set"
      and "pool = candidate_cards (bot_nickname ident) (bot_alias_names ident) bot_card"
  shows "snd (execute_duoshe cfg ident env group_id sent) =
           sent @ [poke_request (napcat_address cfg) (napcat_port cfg) group_id t,
                   member_info_request (napcat_address cfg) (napcat_port cfg) group_id t,
                   member_info_request (napcat_address cfg) (napcat_port cfg) group_id
                     (bot_qq ident),
                   card_request (napcat_address cfg) (napcat_port cfg) group_id
                     (bot_qq ident) target_card]
             @ (if (bot_role = JStr ''admin'' \<or> bot_role = JStr ''owner'') \<and> pool \<noteq> []
                then [card_request (napcat_address cfg) (napcat_port cfg) group_id t
                        (pool ! (card_draw env mod length pool))]
                else [])"
proof -
  obtain r where r: "poke_result (poke_outcome env) = Inr r"
    using poke_result_returns by blast
  obtain target_info
    where ti: "member_info_result (target_info_outcome env) = Inr (True, target_info)"
      "card_or_nickname target_info = Inr target_card"
    using assms(5)
    by (auto simp add: fetched_card_def split: sum.splits bool.splits prod.splits)
  obtain bot_info
    where bi: "member_info_result (bot_info_outcome env) = Inr (True, bot_info)"
      "card_or_nickname bot_info = Inr bot_card"
      "info_get bot_info ''role'' (JStr ''member'') = Inr bot_role"
    using assms(6,7)
    by (auto simp add: fetched_card_def fetched_role_def
        split: sum.splits bool.splits prod.splits)
  show ?thesis
    using assms(1-4,8) r ti bi unfolding assms(9)
    by (simp add: execute_duoshe_def execute_duoshe_try_def Let_def api_eqs choice_def
        split: prod.splits sum.splits)
qed

subsection \<open>Scheduling\<close>

lemma uniform_bounds:
  assumes "a \<le> b" "0 \<le> u" "u \<le> 1"
  shows "a \<le> uniform a b u" "uniform a b u \<le> b"
proof -
  have "0 \<le> (b - a) * u" using assms by simp
  then show "a \<le> uniform a b u" by (simp add: uniform_def)
  have "(b - a) * u \<le> (b - a) * 1" using assms by (intro mult_left_mono) simp_all
  then show "uniform a b u \<le> b" by (simp add: uniform_def)
qed

lemma pass_rescheduled:
  assumes "schedule_pass cfg ident group_id tk w = (Rescheduled nr, w')"
  shows "\<exists>loaded. load_schedule (store w) = JObj loaded
           \<and> nr = now tk + uniform (real_of_int (min_interval cfg))
                             (real_of_int (max_interval cfg)) (uniform_unit tk) * 60
           \<and> store w' = save_schedule (write_result tk)
                          (JObj (AList.update group_id (JNum nr) loaded)) (store w)"
proof (cases "load_schedule (store w)")
  case (JObj loaded)
  show ?thesis
    using assms
    by (auto simp add: JObj schedule_pass_def Let_def
        split: sum.splits if_splits prod.splits option.splits)
qed (use assms in \<open>simp_all add: schedule_pass_def Let_def\<close>)

subsection \<open>The candidate pool\<close>

lemma candidate_cards_claimed:
  assumes "[] \<notin> set aliases"
  shows "candidate_cards nickname aliases bot_card = claimed_pool nickname aliases bot_card"
proof -
  have "filter truthy (map JStr aliases) = map JStr aliases"
    using assms by (induction aliases) auto
  then show ?thesis by (simp add: candidate_cards_def claimed_pool_def)
qed

lemma select_target_card_draw:
  "select_target lambd (env\<lparr>card_draw := d\<rparr>) users = select_target lambd env users"
  by (simp add: select_target_def split: sum.splits)

lemma count_positions: "card {d. d < length xs \<and> xs ! d = c} = count_list xs c"
proof -
  have "{d. d < length xs \<and> xs ! d = c} = {d. d < length xs \<and> c = xs ! d}" by auto
  then show ?thesis by (simp add: count_list_eq_length_filter length_filter_conv_card)
qed

subsection \<open>The example surroundings\<close>

lemma execute_duoshe_raises:
  "fst (execute_duoshe cfg ident env group_id sent) = stream_lookup env"
  by (simp add: execute_duoshe_def split: option.splits prod.splits)

lemma example_requests:
  "snd (execute_duoshe example_config example_bot example_env ''1001'' []) =
     [poke_request ''napcat'' 3000 ''1001'' ''42'',
      member_info_request ''napcat'' 3000 ''1001'' ''42'',
      member_info_request ''napcat'' 3000 ''1001'' ''10000'',
      card_request ''napcat'' 3000 ''1001'' ''10000'' (JStr ''Alice''),
      card_request ''napcat'' 3000 ''1001'' ''42'' (JStr ''Maimai'')]"
  using reaches_step_5[of example_env example_config "''42''" "JStr ''Alice''" "JStr ''Mai''"
      "JStr ''admin''" _ "[JStr ''Mai'', JStr ''Maimai'', JStr ''Mai'']" example_bot "''1001''" "[]"]
  by (simp add: example_env_def example_config_def example_bot_def select_singleton
      candidate_cards_def)

lemma example_cycle:
  "execute_duoshe example_config example_bot example_env ''1001'' [] =
     (None,
      [poke_request ''napcat'' 3000 ''1001'' ''42'',
       member_info_request ''napcat'' 3000 ''1001'' ''42'',
       member_info_request ''napcat'' 3000 ''1001'' ''10000'',
       card_request ''napcat'' 3000 ''1001'' ''10000'' (JStr ''Alice''),
       card_request ''napcat'' 3000 ''1001'' ''42'' (JStr ''Maimai'')])"
  using execute_duoshe_raises[of example_config example_bot example_env "''1001''" "[]"]
    example_requests
  by (simp add: prod_eq_iff example_env_def)

lemma example_pass:
  "schedule_pass example_config example_bot ''1001'' example_tick example_world =
     (Rescheduled 1700025200,
      \<lparr>store = Document (schedule_dict [(''1001'', 1700025200), (''2002'', 1700005000)]),
       requests =
         [poke_request ''napcat'' 3000 ''1001'' ''42'',
          member_info_request ''napcat'' 3000 ''1001'' ''42'',
          member_info_request ''napcat'' 3000 ''1001'' ''10000'',
          card_request ''napcat'' 3000 ''1001'' ''10000'' (JStr ''Alice''),
          card_request ''napcat'' 3000 ''1001'' ''42'' (JStr ''Maimai'')]\<rparr>)"
  by (simp add: schedule_pass_def example_tick_def example_world_def example_cycle
        load_schedule_def schedule_dict_def Let_def)
     (simp add: save_schedule_def uniform_def example_config_def)

lemma example_fields:
  "min_interval example_config = 360" "max_interval example_config = 480"
  "now example_tick = 1700000000" "uniform_unit example_tick = 1 / 2"
  "write_result example_tick = Written" "random_unit example_env = 1 / 10"
  "store example_world =
     Document (schedule_dict [(''1001'', 1699999000), (''2002'', 1700005000)])"
  by (simp_all add: example_config_def example_tick_def example_env_def example_world_def)

section \<open>The claims\<close>


subsection \<open>C1: the rescheduled time\<close>

text \<open>
  C1. A pass of the scheduling loop that takes the execute-and-reschedule branch, with
  \<open>0 < min_interval \<le> max_interval\<close>, a draw of \<open>random.random()\<close> in \<open>[0, 1)\<close> and a
  successful write, leaves a document in the schedule file whose entry for the group is
  the new \<open>next_run\<close>; this \<open>next_run\<close> is later than the \<open>current_time\<close> read at the
  start of the pass, and the distance between the two lies between \<open>min_interval * 60\<close>
  and \<open>max_interval * 60\<close> seconds. Timestamps are real numbers here.
\<close>

theorem next_run_within_interval:
  assumes "0 < min_interval cfg" and "min_interval cfg \<le> max_interval cfg"
      and "0 \<le> uniform_unit tk" and "uniform_unit tk < 1"
      and "schedule_pass cfg ident group_id tk w = (Rescheduled next_run, w')"
      and "write_result tk = Written"
  shows "(\<exists>saved. store w' = Document (JObj saved)
            \<and> map_of saved group_id = Some (JNum next_run))
         \<and> now tk < next_run
         \<and> real_of_int (min_interval cfg) * 60 \<le> next_run - now tk
         \<and> next_run - now tk \<le> real_of_int (max_interval cfg) * 60"
proof -
  let ?m = "uniform (real_of_int (min_interval cfg)) (real_of_int (max_interval cfg))
              (uniform_unit tk)"
  obtain loaded where l: "next_run = now tk + ?m * 60"
     "store w' = save_schedule (write_result tk)
                   (JObj (AList.update group_id (JNum next_run) loaded)) (store w)"
    using pass_rescheduled[OF assms(5)] by blast
  have b: "real_of_int (min_interval cfg) \<le> ?m" "?m \<le> real_of_int (max_interval cfg)"
    using uniform_bounds[of "real_of_int (min_interval cfg)"
        "real_of_int (max_interval cfg)" "uniform_unit tk"] assms(2-4)
    by simp_all
  have p: "0 < real_of_int (min_interval cfg)" using assms(1) by simp
  have "store w' = Document (JObj (AList.update group_id (JNum next_run) loaded))"
    using l(2) assms(6) by (simp add: save_schedule_def)
  moreover have "map_of (AList.update group_id (JNum next_run) loaded) group_id
                   = Some (JNum next_run)"
    by (simp add: update_conv')
  ultimately show ?thesis using l(1) b p by auto
qed

theorem next_run_within_interval_witness:
  "(\<exists>saved. store (snd (schedule_pass example_config example_bot ''1001'' example_tick
                          example_world)) = Document (JObj saved)
      \<and> map_of saved ''1001'' = Some (JNum 1700025200))
   \<and> now example_tick < 1700025200
   \<and> real_of_int (min_interval example_config) * 60 \<le> 1700025200 - now example_tick
   \<and> 1700025200 - now example_tick \<le> real_of_int (max_interval example_config) * 60"
  using next_run_within_interval[OF _ _ _ _ example_pass]
  by (simp add: example_pass example_fields)

subsection \<open>C2: candidate selection\<close>

text \<open>
  C2. Selection from a non-empty ranked list. A list of exactly one user yields that
  user, whatever the rate and the random draws are. For a list of \<open>n \<ge> 2\<close> users, a
  positive rate \<open>lambda_param\<close> and a draw of \<open>random.random()\<close> in \<open>[0, 1)\<close>, the
  exponential sample is defined and not negative, and the selected user is
  \<open>ranked[min(floor(sample * n), n - 1)]\<close>. Whatever the rate and the draws are, the
  selected user is an element of the list. For the list A, B, C, the rate 1.5 and the
  draw 0.1, the sample lies within 0.005 of 0.0704, the index is 0 and A is selected.
\<close>

theorem select_target_postcondition:
  "select_target lambd env [x] = Inr x
   \<and> (2 \<le> length ranked \<and> 0 < lambd \<and> 0 \<le> random_unit env \<and> random_unit env < 1 \<longrightarrow>
        (\<exists>sample. expovariate lambd (random_unit env) = Inr sample \<and> 0 \<le> sample
           \<and> select_target lambd env ranked =
               Inr (ranked ! min (nat \<lfloor>sample * real (length ranked)\<rfloor>)
                                  (length ranked - 1))))
   \<and> (ranked \<noteq> [] \<longrightarrow> (\<exists>t \<in> set ranked. select_target lambd env ranked = Inr t))
   \<and> (random_unit env = 1 / 10 \<longrightarrow>
        (\<exists>sample. expovariate (3 / 2) (random_unit env) = Inr sample
           \<and> \<bar>sample - 0.0704\<bar> < 0.005
           \<and> \<lfloor>sample * real (length [''A'', ''B'', ''C''])\<rfloor> = 0
           \<and> select_target (3 / 2) env [''A'', ''B'', ''C''] = Inr ''A''))"
proof (intro conjI impI)
  show "select_target lambd env [x] = Inr x" by (rule select_singleton)
next
  assume h: "2 \<le> length ranked \<and> 0 < lambd \<and> 0 \<le> random_unit env \<and> random_unit env < 1"
  then obtain sample
    where s: "expovariate lambd (random_unit env) = Inr sample" "0 \<le> sample"
    using expovariate_nonneg[of lambd "random_unit env"] by blast
  with h show "\<exists>sample. expovariate lambd (random_unit env) = Inr sample \<and> 0 \<le> sample
           \<and> select_target lambd env ranked =
               Inr (ranked ! min (nat \<lfloor>sample * real (length ranked)\<rfloor>)
                                  (length ranked - 1))"
    using select_index[of ranked lambd env sample] by blast
next
  assume "ranked \<noteq> []"
  then show "\<exists>t \<in> set ranked. select_target lambd env ranked = Inr t"
    by (rule select_member)
next
  assume u: "random_unit env = 1 / 10"
  obtain sample
    where s: "expovariate (3 / 2) (random_unit env) = Inr sample"
      "0.0658 < sample" "sample < 0.0741"
    using scenario_sample u by auto
  have f: "\<lfloor>sample * 3\<rfloor> = 0" using s(2,3) by (simp add: floor_eq_iff)
  have "select_target (3 / 2) env [''A'', ''B'', ''C''] = Inr ''A''"
    using select_index[of "[''A'', ''B'', ''C'']" "3 / 2" env sample] s f by simp
  moreover have "sample - 0.0704 < 0.005 \<and> - (sample - 0.0704) < 0.005"
    using s(2,3) by simp
  then have "\<bar>sample - 0.0704\<bar> < 0.005" by (simp only: abs_less_iff)
  ultimately show "\<exists>sample. expovariate (3 / 2) (random_unit env) = Inr sample
           \<and> \<bar>sample - 0.0704\<bar> < 0.005
           \<and> \<lfloor>sample * real (length [''A'', ''B'', ''C''])\<rfloor> = 0
           \<and> select_target (3 / 2) env [''A'', ''B'', ''C''] = Inr ''A''"
    using s(1) f by auto
qed

theorem select_target_postcondition_witness:
  "select_target (3 / 2) example_env [''A''] = Inr ''A''
   \<and> 2 \<le> length [''A'', ''B'', ''C''] \<and> (0 :: real) < 3 / 2
   \<and> 0 \<le> random_unit example_env \<and> random_unit example_env < 1
   \<and> random_unit example_env = 1 / 10
   \<and> (\<exists>t \<in> set [''A'', ''B'', ''C''].
         select_target (3 / 2) example_env [''A'', ''B'', ''C''] = Inr t)
   \<and> select_target (3 / 2) example_env [''A'', ''B'', ''C''] = Inr ''A''"
  using select_target_postcondition[of "3 / 2" example_env "''A''" "[''A'', ''B'', ''C'']"]
  by (auto simp add: example_fields)

subsection \<open>C3: how the three operations classify a reply\<close>

text \<open>
  C3, as amended. When the request yields no decoded body (HTTP error, network error,
  undecodable body, any other exception), each of the three operations returns the
  failure signal. On a decoded JSON object, \<open>set_group_card\<close> returns the failure signal
  when the status is not \<open>"ok"\<close>, and \<open>get_group_member_info\<close> returns it when \<open>data\<close>
  is null or absent.
\<close>

theorem reply_classification:
  "(transport_failure outcome \<longrightarrow>
      returned_failure (fst (group_poke a p g u outcome s))
      \<and> returned_failure (fst (set_group_card a p g u c outcome s))
      \<and> returned_failure (fst (get_group_member_info a p g u outcome s)))
   \<and> (status_not_ok body \<longrightarrow>
      returned_failure (fst (set_group_card a p g u c (Response body) s)))
   \<and> (data_empty body \<longrightarrow>
      returned_failure (fst (get_group_member_info a p g u (Response body) s)))"
  by (simp add: api_eqs transport_failure_results set_card_result_status
      member_info_result_empty)

theorem reply_classification_witness:
  "transport_failure (URLError ''refused'')
   \<and> status_not_ok (JObj [(''status'', JStr ''failed'')])
   \<and> data_empty (JObj [(''data'', JNull)])
   \<and> returned_failure (fst (group_poke ''napcat'' 3000 ''1001'' ''42'' (URLError ''refused'') []))
   \<and> returned_failure
         (fst (set_group_card ''napcat'' 3000 ''1001'' ''42'' (JStr ''x'') (URLError ''refused'') []))
   \<and> returned_failure
         (fst (get_group_member_info ''napcat'' 3000 ''1001'' ''42'' (URLError ''refused'') []))
   \<and> returned_failure
         (fst (set_group_card ''napcat'' 3000 ''1001'' ''42'' (JStr ''x'')
                 (Response (JObj [(''status'', JStr ''failed'')])) []))
   \<and> returned_failure
         (fst (get_group_member_info ''napcat'' 3000 ''1001'' ''42''
                 (Response (JObj [(''data'', JNull)])) []))"
  using reply_classification[of "URLError ''refused''" "''napcat''" 3000 "''1001''" "''42''" "[]"
      "JStr ''x''" "JObj [(''status'', JStr ''failed'')]"]
    reply_classification[of "URLError ''refused''" "''napcat''" 3000 "''1001''" "''42''" "[]"
      "JStr ''x''" "JObj [(''data'', JNull)]"]
  by (simp add: transport_failure_def status_not_ok_def data_empty_def)

text \<open>The claim as stated fails for each operation: a body with the status \<open>"failed"\<close>
  and null data makes \<open>group_poke\<close> return success; a body with the status \<open>"failed"\<close>
  and data present makes \<open>get_group_member_info\<close> return success; a body with the status
  \<open>"ok"\<close> and null data makes \<open>set_group_card\<close> return success.\<close>

theorem reply_classification_counterexample:
  "status_not_ok (JObj [(''status'', JStr ''failed''), (''data'', JNull)])
   \<and> data_empty (JObj [(''status'', JStr ''failed''), (''data'', JNull)])
   \<and> \<not> returned_failure
         (fst (group_poke ''napcat'' 3000 ''1001'' ''42''
                 (Response (JObj [(''status'', JStr ''failed''), (''data'', JNull)])) []))
   \<and> status_not_ok (JObj [(''status'', JStr ''failed''), (''data'', JObj [(''card'', JStr ''x'')])])
   \<and> \<not> returned_failure
         (fst (get_group_member_info ''napcat'' 3000 ''1001'' ''42''
                 (Response (JObj [(''status'', JStr ''failed''),
                                  (''data'', JObj [(''card'', JStr ''x'')])])) []))
   \<and> data_empty (JObj [(''status'', JStr ''ok''), (''data'', JNull)])
   \<and> \<not> returned_failure
         (fst (set_group_card ''napcat'' 3000 ''1001'' ''42'' (JStr ''x'')
                 (Response (JObj [(''status'', JStr ''ok''), (''data'', JNull)])) []))"
  by (simp add: status_not_ok_def data_empty_def returned_failure_def group_poke_def
      get_group_member_info_def set_group_card_def make_request_def)

subsection \<open>C4: a failed fetch of the target's member info\<close>

text \<open>
  C4. When the fetch of the target's member info does not succeed (it returns the failure
  signal or raises; in particular when the reply is \<open>{"data": null}\<close>), the cycle stops
  there: it sends at most the poke and that member-info request, and no set-card request
  at all, neither for the bot nor for the target.
\<close>

theorem no_card_change_without_target_info:
  assumes "target_info_outcome env = Response (JObj [(''data'', JNull)])
             \<or> \<not> succeeded (member_info_result (target_info_outcome env))"
  shows "\<exists>new. snd (execute_duoshe cfg ident env group_id sent) = sent @ new
           \<and> length new \<le> 2 \<and> (\<forall>r \<in> set new. \<not> is_card_request r)"
proof -
  have f: "\<not> succeeded (member_info_result (target_info_outcome env))"
    using assms
    by (auto simp add: succeeded_def member_info_result_def get_group_member_info_def
        make_request_def)
  show ?thesis
    using f
    by (auto simp add: execute_duoshe_def execute_duoshe_try_def Let_def api_eqs succeeded_def
        is_card_request_def split: option.splits prod.splits sum.splits)
qed

theorem no_card_change_without_target_info_witness:
  "target_info_outcome (example_env\<lparr>target_info_outcome := Response (JObj [(''data'', JNull)])\<rparr>)
     = Response (JObj [(''data'', JNull)])
   \<and> (\<exists>new. snd (execute_duoshe example_config example_bot
                    (example_env\<lparr>target_info_outcome := Response (JObj [(''data'', JNull)])\<rparr>)
                    ''1001'' []) = [] @ new
          \<and> length new \<le> 2 \<and> (\<forall>r \<in> set new. \<not> is_card_request r))"
  using no_card_change_without_target_info[of
      "example_env\<lparr>target_info_outcome := Response (JObj [(''data'', JNull)])\<rparr>"
      example_config example_bot "''1001''" "[]"]
  by simp

subsection \<open>C5: no reciprocal swap without an administrator role\<close>

text \<open>
  C5. When the role fetched for the bot is neither \<open>"admin"\<close> nor \<open>"owner"\<close> (it is
  \<open>"member"\<close>, any other value, or no role was fetched), then whatever the other steps
  do, the only set-card request the cycle can send is the one of Step 5 for the bot's own
  account; no set-card request is sent for any other user, so none for the target (the
  message query is asked to leave out the bot's own messages, so the target is another
  user).
\<close>

theorem member_role_never_sets_target_card:
  assumes "fetched_role (bot_info_outcome env) \<noteq> Some (JStr ''admin'')"
      and "fetched_role (bot_info_outcome env) \<noteq> Some (JStr ''owner'')"
  shows "\<exists>new. snd (execute_duoshe cfg ident env group_id sent) = sent @ new
           \<and> (filter is_card_request new = []
                \<or> (\<exists>c. filter is_card_request new =
                      [card_request (napcat_address cfg) (napcat_port cfg) group_id
                         (bot_qq ident) c]))
           \<and> (\<forall>u c. u \<noteq> bot_qq ident \<longrightarrow>
                 card_request (napcat_address cfg) (napcat_port cfg) group_id u c \<notin> set new)"
  using assms
  by (auto simp add: execute_duoshe_def execute_duoshe_try_def Let_def api_eqs fetched_role_def
      is_card_request_def poke_request_def member_info_request_def card_request_def
      split: option.splits prod.splits sum.splits bool.splits if_splits)

theorem member_role_never_sets_target_card_witness:
  "fetched_role (bot_info_outcome
      (example_env\<lparr>bot_info_outcome := member_reply ''Mai'' ''mai'' ''member''\<rparr>))
     = Some (JStr ''member'')
   \<and> (\<exists>new. snd (execute_duoshe example_config example_bot
                    (example_env\<lparr>bot_info_outcome := member_reply ''Mai'' ''mai'' ''member''\<rparr>)
                    ''1001'' []) = [] @ new
          \<and> card_request (napcat_address example_config) (napcat_port example_config) ''1001''
               ''42'' (JStr ''Maimai'') \<notin> set new)"
  using member_role_never_sets_target_card[of
      "example_env\<lparr>bot_info_outcome := member_reply ''Mai'' ''mai'' ''member''\<rparr>"
      example_config example_bot "''1001''" "[]"]
  by (auto simp add: example_bot_def)

subsection \<open>C6: the swap is attempted after a failed own-card step\<close>

text \<open>
  C6. In a cycle that reaches Step 5 (the stream lookup does not raise, a non-empty target
  is selected, both member-info fetches succeed), when the set-card call for the bot's own
  card returns the failure signal, the bot's role is \<open>"admin"\<close> or \<open>"owner"\<close> and the
  candidate pool is not empty, the set-card request for the target is still sent, right
  after the failed one, with the card that \<open>random.choice\<close> picks from the pool.
\<close>

theorem swap_attempted_after_own_card_failure:
  assumes "stream_lookup env = None"
      and "active_users_of (message_query env) \<noteq> []"
      and "select_target (lambda_param cfg) env (active_users_of (message_query env)) = Inr t"
      and "t \<noteq> []"
      and "fetched_card (target_info_outcome env) = Some target_card"
      and "fetched_card (bot_info_outcome env) = Some bot_card"
      and "fetched_role (bot_info_outcome env) = Some (JStr ''admin'')
             \<or> fetched_role (bot_info_outcome env) = Some (JStr ''owner'')"
      and "returned_failure (set_card_result (own_card_outcome env))"
      and "pool = candidate_cards (bot_nickname ident) (bot_alias_names ident) bot_card"
      and "pool \<noteq> []"
  shows "snd (execute_duoshe cfg ident env group_id sent) =
           sent @ [poke_request (napcat_address cfg) (napcat_port cfg) group_id t,
                   member_info_request (napcat_address cfg) (napcat_port cfg) group_id t,
                   member_info_request (napcat_address cfg) (napcat_port cfg) group_id
                     (bot_qq ident),
                   card_request (napcat_address cfg) (napcat_port cfg) group_id
                     (bot_qq ident) target_card,
                   card_request (napcat_address cfg) (napcat_port cfg) group_id t
                     (pool ! (card_draw env mod length pool))]"
proof -
  obtain own_set where own: "set_card_result (own_card_outcome env) = Inr own_set"
    using assms(8) by (auto simp add: returned_failure_def split: sum.splits)
  obtain bot_role where role: "fetched_role (bot_info_outcome env) = Some bot_role"
      "bot_role = JStr ''admin'' \<or> bot_role = JStr ''owner''"
    using assms(7) by auto
  show ?thesis
    using reaches_step_5[OF assms(1-6) role(1) own assms(9), of group_id sent] role(2) assms(10)
    by simp
qed

theorem swap_attempted_after_own_card_failure_witness:
  "returned_failure (set_card_result (own_card_outcome
       (example_env\<lparr>own_card_outcome := failed_reply\<rparr>)))
   \<and> snd (execute_duoshe example_config example_bot
            (example_env\<lparr>own_card_outcome := failed_reply\<rparr>) ''1001'' []) =
       [] @ [poke_request (napcat_address example_config) (napcat_port example_config)
               ''1001'' ''42'',
             member_info_request (napcat_address example_config) (napcat_port example_config)
               ''1001'' ''42'',
             member_info_request (napcat_address example_config) (napcat_port example_config)
               ''1001'' (bot_qq example_bot),
             card_request (napcat_address example_config) (napcat_port example_config)
               ''1001'' (bot_qq example_bot) (JStr ''Alice''),
             card_request (napcat_address example_config) (napcat_port example_config)
               ''1001'' ''42'' (JStr ''Maimai'')]"
  using swap_attempted_after_own_card_failure[of
      "example_env\<lparr>own_card_outcome := failed_reply\<rparr>" example_config "''42''"
      "JStr ''Alice''" "JStr ''Mai''" "[JStr ''Mai'', JStr ''Maimai'', JStr ''Mai'']"
      example_bot "''1001''" "[]"]
  by (simp add: example_env_def example_bot_def select_singleton candidate_cards_def
      returned_failure_def)

subsection \<open>C7: no active user, no request\<close>

text \<open>
  C7. When the ranking yields no candidate (the message window is empty, the message
  query raises, or no message carries a user id), the cycle sends no request to the remote
  API: no poke, no member-info fetch, no set-card.
\<close>

theorem no_request_without_active_user:
  assumes "message_query env = Inr [] \<or> (\<exists>e. message_query env = Inl e)
             \<or> active_users_of (message_query env) = []"
  shows "snd (execute_duoshe cfg ident env group_id sent) = sent"
  using assms
  by (auto simp add: execute_duoshe_def execute_duoshe_try_def active_users_of_def
      sorted_users_def split: option.splits prod.splits)

theorem no_request_without_active_user_witness:
  "message_query (example_env\<lparr>message_query := Inr []\<rparr>) = Inr []
   \<and> snd (execute_duoshe example_config example_bot
            (example_env\<lparr>message_query := Inr []\<rparr>) ''1001'' []) = []
   \<and> snd (execute_duoshe example_config example_bot
            (example_env\<lparr>message_query := Inl ExternalError\<rparr>) ''1001'' []) = []"
  using no_request_without_active_user[of "example_env\<lparr>message_query := Inr []\<rparr>"
      example_config example_bot "''1001''" "[]"]
    no_request_without_active_user[of "example_env\<lparr>message_query := Inl ExternalError\<rparr>"
      example_config example_bot "''1001''" "[]"]
  by simp

subsection \<open>C8: the candidate pool of the reciprocal swap\<close>

text \<open>
  C8, as amended. In a cycle that reaches Step 6 with the role \<open>"admin"\<close> or \<open>"owner"\<close>,
  and with no empty name among the configured alias names, the candidate pool consists
  exactly of the non-empty entries among the bot's configured nickname, the bot's
  configured alias names and the bot's current display name as fetched in the cycle (its
  card, or the nickname of its member info when the card is empty). The new card is chosen
  uniformly at random from that pool: the card sent for the target is the pool entry at
  the position that \<open>random.choice\<close> draws, and of the \<open>len(pool)\<close> equally likely
  draws, as many send a given name as the pool has entries of that name. When the pool is
  empty, no set-card request is sent for the target. (What the step does with an empty
  alias name is left open here.)
\<close>

theorem reciprocal_swap_pool:
  assumes "stream_lookup env = None"
      and "active_users_of (message_query env) \<noteq> []"
      and "select_target (lambda_param cfg) env (active_users_of (message_query env)) = Inr t"
      and "t \<noteq> []"
      and "fetched_card (target_info_outcome env) = Some target_card"
      and "fetched_card (bot_info_outcome env) = Some bot_card"
      and "fetched_role (bot_info_outcome env) = Some (JStr ''admin'')
             \<or> fetched_role (bot_info_outcome env) = Some (JStr ''owner'')"
      and "set_card_result (own_card_outcome env) = Inr own_set"
      and "[] \<notin> set (bot_alias_names ident)"
      and "pool = claimed_pool (bot_nickname ident) (bot_alias_names ident) bot_card"
      and "steps_3_to_5 =
             [poke_request (napcat_address cfg) (napcat_port cfg) group_id t,
              member_info_request (napcat_address cfg) (napcat_port cfg) group_id t,
              member_info_request (napcat_address cfg) (napcat_port cfg) group_id (bot_qq ident),
              card_request (napcat_address cfg) (napcat_port cfg) group_id (bot_qq ident)
                target_card]"
  shows "snd (execute_duoshe cfg ident env group_id sent) =
           sent @ steps_3_to_5
             @ (if pool = [] then []
                else [card_request (napcat_address cfg) (napcat_port cfg) group_id t
                        (pool ! (card_draw env mod length pool))])
         \<and> (\<forall>c. card {d. d < length pool
                        \<and> snd (execute_duoshe cfg ident (env\<lparr>card_draw := d\<rparr>) group_id sent) =
                            sent @ steps_3_to_5
                              @ [card_request (napcat_address cfg) (napcat_port cfg)
                                   group_id t c]}
                  = count_list pool c)"
proof -
  obtain bot_role where role: "fetched_role (bot_info_outcome env) = Some bot_role"
      "bot_role = JStr ''admin'' \<or> bot_role = JStr ''owner''"
    using assms(7) by auto
  have pool: "pool = candidate_cards (bot_nickname ident) (bot_alias_names ident) bot_card"
    using assms(9,10) by (simp add: candidate_cards_claimed)
  have log: "snd (execute_duoshe cfg ident (env\<lparr>card_draw := d\<rparr>) group_id sent) =
           sent @ steps_3_to_5
             @ (if pool = [] then []
                else [card_request (napcat_address cfg) (napcat_port cfg) group_id t
                        (pool ! (d mod length pool))])" for d
    using reaches_step_5[of "env\<lparr>card_draw := d\<rparr>" cfg t target_card bot_card bot_role
        own_set pool ident group_id sent] assms(1-6,8,11) role pool
    by (simp add: select_target_card_draw)
  have here: "snd (execute_duoshe cfg ident env group_id sent) =
           sent @ steps_3_to_5
             @ (if pool = [] then []
                else [card_request (napcat_address cfg) (napcat_port cfg) group_id t
                        (pool ! (card_draw env mod length pool))])"
    using log[of "card_draw env"] by simp
  have "{d. d < length pool
            \<and> snd (execute_duoshe cfg ident (env\<lparr>card_draw := d\<rparr>) group_id sent) =
                sent @ steps_3_to_5
                  @ [card_request (napcat_address cfg) (napcat_port cfg) group_id t c]}
          = {d. d < length pool \<and> pool ! d = c}" for c
    by (auto simp add: log)
  then show ?thesis using here by (simp add: count_positions)
qed

theorem reciprocal_swap_pool_witness:
  "[] \<notin> set (bot_alias_names example_bot)
   \<and> claimed_pool (bot_nickname example_bot) (bot_alias_names example_bot) (JStr ''Mai'') =
       [JStr ''Mai'', JStr ''Maimai'', JStr ''Mai'']
   \<and> snd (execute_duoshe example_config example_bot example_env ''1001'' []) =
       [poke_request ''napcat'' 3000 ''1001'' ''42'',
        member_info_request ''napcat'' 3000 ''1001'' ''42'',
        member_info_request ''napcat'' 3000 ''1001'' ''10000'',
        card_request ''napcat'' 3000 ''1001'' ''10000'' (JStr ''Alice''),
        card_request ''napcat'' 3000 ''1001'' ''42'' (JStr ''Maimai'')]
   \<and> card {d. d < length [JStr ''Mai'', JStr ''Maimai'', JStr ''Mai'']
              \<and> snd (execute_duoshe example_config example_bot
                       (example_env\<lparr>card_draw := d\<rparr>) ''1001'' []) =
                  [poke_request ''napcat'' 3000 ''1001'' ''42'',
                   member_info_request ''napcat'' 3000 ''1001'' ''42'',
                   member_info_request ''napcat'' 3000 ''1001'' ''10000'',
                   card_request ''napcat'' 3000 ''1001'' ''10000'' (JStr ''Alice''),
                   card_request ''napcat'' 3000 ''1001'' ''42'' (JStr ''Mai'')]} = 2"
proof -
  have pool: "claimed_pool (bot_nickname example_bot) (bot_alias_names example_bot)
                (JStr ''Mai'') = [JStr ''Mai'', JStr ''Maimai'', JStr ''Mai'']"
    by (simp add: claimed_pool_def example_bot_def)
  have no_empty: "[] \<notin> set (bot_alias_names example_bot)"
    by (simp add: example_bot_def)
  note w = reciprocal_swap_pool[where env = example_env and cfg = example_config
      and t = "''42''" and target_card = "JStr ''Alice''" and bot_card = "JStr ''Mai''"
      and ident = example_bot and pool = "[JStr ''Mai'', JStr ''Maimai'', JStr ''Mai'']"
      and group_id = "''1001''" and sent = "[]",
      OF _ _ _ _ _ _ _ _ no_empty pool[symmetric] refl]
  have w': "snd (execute_duoshe example_config example_bot example_env ''1001'' []) =
       [] @ [poke_request (napcat_address example_config) (napcat_port example_config) ''1001'' ''42'',
        member_info_request (napcat_address example_config) (napcat_port example_config) ''1001'' ''42'',
        member_info_request (napcat_address example_config) (napcat_port example_config) ''1001'' (bot_qq example_bot),
        card_request (napcat_address example_config) (napcat_port example_config) ''1001'' (bot_qq example_bot) (JStr ''Alice'')]
         @ (if [JStr ''Mai'', JStr ''Maimai'', JStr ''Mai''] = [] then []
            else [card_request (napcat_address example_config) (napcat_port example_config) ''1001'' ''42''
                    ([JStr ''Mai'', JStr ''Maimai'', JStr ''Mai''] ! (card_draw example_env mod length [JStr ''Mai'', JStr ''Maimai'', JStr ''Mai'']))])
     \<and> (\<forall>c. card {d. d < length [JStr ''Mai'', JStr ''Maimai'', JStr ''Mai'']
                        \<and> snd (execute_duoshe example_config example_bot (example_env\<lparr>card_draw := d\<rparr>) ''1001'' []) =
                            [] @ [poke_request (napcat_address example_config) (napcat_port example_config) ''1001'' ''42'',
        member_info_request (napcat_address example_config) (napcat_port example_config) ''1001'' ''42'',
        member_info_request (napcat_address example_config) (napcat_port example_config) ''1001'' (bot_qq example_bot),
        card_request (napcat_address example_config) (napcat_port example_config) ''1001'' (bot_qq example_bot) (JStr ''Alice'')]
                              @ [card_request (napcat_address example_config) (napcat_port example_config) ''1001'' ''42'' c]}
                  = count_list [JStr ''Mai'', JStr ''Maimai'', JStr ''Mai''] c)"
    by (rule w) (simp_all add: example_env_def select_singleton)
  show ?thesis
    using w'[THEN conjunct1] w'[THEN conjunct2, THEN spec, of "JStr ''Mai''"] no_empty pool
    by (simp add: example_config_def example_bot_def example_env_def)
qed

text \<open>The claim as stated fails. With no configured nickname, no alias and an empty card
  in the bot's member info, no entry among nickname, alias names and card is non-empty, so
  the claimed pool is empty and the step would be skipped; the code sends a set-card
  request for the target with the nickname of the bot's member info, since its \<open>bot_card\<close>
  is the card or else that nickname. With an empty configured nickname, the single alias
  name \<open>""\<close> and an empty card and nickname in the member info, the claimed pool is empty
  again; the code, which tests the alias list as a whole, sends a set-card request for the
  target with the empty card.\<close>

theorem reciprocal_swap_pool_counterexample:
  "claimed_pool [] [] (JStr []) = []
   \<and> snd (execute_duoshe example_config
            \<lparr>bot_qq = ''10000'', bot_nickname = [], bot_alias_names = []\<rparr>
            (example_env\<lparr>bot_info_outcome := member_reply [] ''mai'' ''admin''\<rparr>) ''1001'' []) =
       [poke_request ''napcat'' 3000 ''1001'' ''42'',
        member_info_request ''napcat'' 3000 ''1001'' ''42'',
        member_info_request ''napcat'' 3000 ''1001'' ''10000'',
        card_request ''napcat'' 3000 ''1001'' ''10000'' (JStr ''Alice''),
        card_request ''napcat'' 3000 ''1001'' ''42'' (JStr ''mai'')]
   \<and> claimed_pool [] [[]] (JStr []) = []
   \<and> snd (execute_duoshe example_config
            \<lparr>bot_qq = ''10000'', bot_nickname = [], bot_alias_names = [[]]\<rparr>
            (example_env\<lparr>bot_info_outcome := member_reply [] [] ''admin''\<rparr>) ''1001'' []) =
       [poke_request ''napcat'' 3000 ''1001'' ''42'',
        member_info_request ''napcat'' 3000 ''1001'' ''42'',
        member_info_request ''napcat'' 3000 ''1001'' ''10000'',
        card_request ''napcat'' 3000 ''1001'' ''10000'' (JStr ''Alice''),
        card_request ''napcat'' 3000 ''1001'' ''42'' (JStr [])]"
  using reaches_step_5[of "example_env\<lparr>bot_info_outcome := member_reply [] [] ''admin''\<rparr>"
      example_config "''42''" "JStr ''Alice''" "JStr []" "JStr ''admin''" _ "[JStr []]"
      "\<lparr>bot_qq = ''10000'', bot_nickname = [], bot_alias_names = [[]]\<rparr>" "''1001''" "[]"]
    reaches_step_5[of "example_env\<lparr>bot_info_outcome := member_reply [] ''mai'' ''admin''\<rparr>"
      example_config "''42''" "JStr ''Alice''" "JStr ''mai''" "JStr ''admin''" _ "[JStr ''mai'']"
      "\<lparr>bot_qq = ''10000'', bot_nickname = [], bot_alias_names = []\<rparr>" "''1001''" "[]"]
  by (simp add: example_env_def example_config_def select_singleton candidate_cards_def
      claimed_pool_def)

subsection \<open>C9: saving and reloading the schedule\<close>

text \<open>
  C9. Saving a schedule mapping from group ids to timestamps and loading it again, when
  the write succeeds, gives back the mapping that was saved, whatever the file held
  before; so does the mapping \<open>{"1001": 1700000000.0}\<close>. (The file is modelled by the
  document it holds; the text codec of the standard library is not modelled.)
\<close>

theorem schedule_round_trip:
  "load_schedule (save_schedule Written (schedule_dict items) f) = schedule_dict items"
  by (simp add: load_schedule_def save_schedule_def)

theorem schedule_round_trip_witness:
  "load_schedule (save_schedule Written (schedule_dict [(''1001'', 1700000000)]) Missing)
     = JObj [(''1001'', JNum 1700000000)]"
  using schedule_round_trip[of "[(''1001'', 1700000000)]" Missing]
  by (simp add: schedule_dict_def)

subsection \<open>C10: the other groups' entries\<close>

text \<open>
  C10. In a pass that takes the execute-and-reschedule branch and whose write succeeds,
  the mapping written is the mapping loaded at the start of the pass with the entry of the
  current group set to the new \<open>next_run\<close>: every other key has in the written mapping
  exactly the entry (or the absence of an entry) it had in the loaded one, and the keys
  keep their order.
\<close>

theorem reschedule_frame:
  assumes "schedule_pass cfg ident group_id tk w = (Rescheduled next_run, w')"
      and "write_result tk = Written"
  shows "\<exists>loaded written.
           load_schedule (store w) = JObj loaded
           \<and> store w' = Document (JObj written)
           \<and> written = AList.update group_id (JNum next_run) loaded
           \<and> map_of written group_id = Some (JNum next_run)
           \<and> (\<forall>k. k \<noteq> group_id \<longrightarrow> map_of written k = map_of loaded k)"
proof -
  obtain loaded where l: "load_schedule (store w) = JObj loaded"
     "store w' = save_schedule (write_result tk)
                   (JObj (AList.update group_id (JNum next_run) loaded)) (store w)"
    using pass_rescheduled[OF assms(1)] by blast
  have "store w' = Document (JObj (AList.update group_id (JNum next_run) loaded))"
    using l(2) assms(2) by (simp add: save_schedule_def)
  then show ?thesis using l(1) by (auto simp add: update_conv')
qed

theorem reschedule_frame_witness:
  "load_schedule (store example_world) =
     JObj [(''1001'', JNum 1699999000), (''2002'', JNum 1700005000)]
   \<and> store (snd (schedule_pass example_config example_bot ''1001'' example_tick example_world))
       = Document (JObj [(''1001'', JNum 1700025200), (''2002'', JNum 1700005000)])"
  using reschedule_frame[OF example_pass]
  by (simp add: example_pass example_fields load_schedule_def schedule_dict_def)

end
